theory Spec2Isabelle
  imports Main "HOL-Library.Sublist"
begin

section \<open>Data model of viral-content-machine.py\<close>

text \<open>
  Python strings are modelled as \<^typ>\<open>string\<close>; the non-ASCII characters of the
  source's literals are written as their UTF-8 bytes, which is what reaches standard
  output. Python's unbounded integers are \<^typ>\<open>int\<close>. Standard output is the list of
  the arguments of the successive \<open>print\<close> calls, each of which \<open>print\<close> ends with a
  newline.
\<close>

text \<open>An exception caught by \<open>except Exception as e\<close>, carried as \<open>str(e)\<close>.\<close>

datatype exn = Exception string

fun str_exn :: "exn \<Rightarrow> string" where
  "str_exn (Exception msg) = msg"

text \<open>The three attributes of a PRAW comment that the program reads.\<close>

record comment =
  body :: string
  score :: int
  stickied :: bool

text \<open>
  An item of a submission's top-level comment collection as the platform returns it: a
  comment, or a \<open>MoreComments\<close> placeholder standing for further comments that were
  not loaded with the collection (the ones an expansion would fetch).
\<close>

datatype forest_item = is_Comment: Comment comment | MoreComments "comment list"

text \<open>
  The attributes of a PRAW submission that the program reads. \<open>comments\<close> is the
  outcome of the first access to \<open>post.comments\<close> on line 59, which fetches the
  collection: either the fetch raises, or the collection is there.
\<close>

record post =
  title :: string
  score :: int
  url :: string
  comments :: "exn + forest_item list"

text \<open>
  The authenticated client. \<open>subreddit_top r name time_filter limit\<close> is the lazy
  listing \<open>r.subreddit(name).top(time_filter=time_filter, limit=limit)\<close>: each step of
  its iteration either raises (\<open>Inl\<close>) or yields the next post (\<open>Inr\<close>).
\<close>

record reddit =
  subreddit_top :: "string \<Rightarrow> string \<Rightarrow> int \<Rightarrow> (exn + post) list"

text \<open>The namespace returned by \<open>parser.parse_args()\<close>.\<close>

record args =
  subreddit :: string
  limit :: int
  time :: string
  comments :: int

text \<open>
  \<open>textwrap.fill(text, width, initial_indent, subsequent_indent)\<close> belongs to Python's
  standard library and is a parameter of the model.
\<close>

type_synonym fill_fun = "string \<Rightarrow> nat \<Rightarrow> string \<Rightarrow> string \<Rightarrow> string"

section \<open>Formatting\<close>

text \<open>\<open>str\<close> of a Python integer, as an f-string renders it.\<close>

fun str_nat :: "nat \<Rightarrow> string" where
  "str_nat n =
     (if n < 10 then [''0123456789'' ! n]
      else str_nat (n div 10) @ [''0123456789'' ! (n mod 10)])"

declare str_nat.simps [simp del]

definition str_int :: "int \<Rightarrow> string" where
  "str_int n = (if n < 0 then ''-'' @ str_nat (nat (- n)) else str_nat (nat n))"

definition nl :: string where
  "nl = [CHR 0x0A]"

definition red_circle :: string where
  "red_circle = [CHR 0xF0, CHR 0x9F, CHR 0x94, CHR 0xB4]"

definition check_mark :: string where
  "check_mark = [CHR 0xE2, CHR 0x9C, CHR 0x85]"

definition magnifier :: string where
  "magnifier = [CHR 0xF0, CHR 0x9F, CHR 0x94, CHR 0x8D]"

definition page_icon :: string where
  "page_icon = [CHR 0xF0, CHR 0x9F, CHR 0x93, CHR 0x84]"

definition thumbs_up :: string where
  "thumbs_up = [CHR 0xF0, CHR 0x9F, CHR 0x91, CHR 0x8D]"

definition link_icon :: string where
  "link_icon = [CHR 0xF0, CHR 0x9F, CHR 0x94, CHR 0x97]"

definition speech_icon :: string where
  "speech_icon = [CHR 0xF0, CHR 0x9F, CHR 0x92, CHR 0xAC]"

section \<open>get_newletter_content\<close>

text \<open>The condition of line 65.\<close>

definition eligible :: "comment \<Rightarrow> bool" where
  "eligible c \<longleftrightarrow>
     \<not> stickied c \<and> body c \<noteq> ''[deleted]'' \<and> body c \<noteq> ''[removed]''"

text \<open>Lines 67-70: the three \<open>print\<close> calls for one comment.\<close>

definition print_comment :: "fill_fun \<Rightarrow> comment \<Rightarrow> string list" where
  "print_comment fill c =
     [''  - (Score: '' @ str_int (comment.score c) @ '')'',
      fill (body c) 70 ''    '' ''    '',
      replicate 20 (CHR ''-'')]"

text \<open>
  Lines 62-71: the loop over the comments, from a value of \<open>comments_fetched\<close>. It
  returns what it prints and the final \<open>comments_fetched\<close>.
\<close>

fun comment_loop :: "fill_fun \<Rightarrow> int \<Rightarrow> comment list \<Rightarrow> int \<Rightarrow> string list \<times> int" where
  "comment_loop fill comment_limit [] comments_fetched = ([], comments_fetched)"
| "comment_loop fill comment_limit (c # cs) comments_fetched =
     (if comments_fetched \<ge> comment_limit then ([], comments_fetched)
      else if eligible c then
        (case comment_loop fill comment_limit cs (comments_fetched + 1) of
           (out, n) \<Rightarrow> (print_comment fill c @ out, n))
      else comment_loop fill comment_limit cs comments_fetched)"

text \<open>
  The same loop, recording instead the comments for which the body of the \<open>if\<close> of
  line 65 runs: the selected comments.
\<close>

fun selected_comments :: "int \<Rightarrow> comment list \<Rightarrow> int \<Rightarrow> comment list" where
  "selected_comments comment_limit [] comments_fetched = []"
| "selected_comments comment_limit (c # cs) comments_fetched =
     (if comments_fetched \<ge> comment_limit then []
      else if eligible c then c # selected_comments comment_limit cs (comments_fetched + 1)
      else selected_comments comment_limit cs comments_fetched)"

text \<open>
  The same loop, recording the comments on which the condition of line 65 is
  evaluated: the examined comments.
\<close>

fun examined_comments :: "int \<Rightarrow> comment list \<Rightarrow> int \<Rightarrow> comment list" where
  "examined_comments comment_limit [] comments_fetched = []"
| "examined_comments comment_limit (c # cs) comments_fetched =
     (if comments_fetched \<ge> comment_limit then []
      else if eligible c then c # examined_comments comment_limit cs (comments_fetched + 1)
      else c # examined_comments comment_limit cs comments_fetched)"

text \<open>Lines 51-55: the header of post number \<open>i\<close> of \<open>enumerate\<close> (from 0).\<close>

definition post_header :: "nat \<Rightarrow> post \<Rightarrow> string list" where
  "post_header i p =
     [nl @ replicate 10 (CHR ''='') @ '' POST #'' @ str_int (int i + 1) @ '' ''
        @ replicate 10 (CHR ''=''),
      page_icon @ '' TITLE: '' @ title p,
      thumbs_up @ '' SCORE: '' @ str_int (post.score p),
      link_icon @ '' URL: '' @ url p,
      nl @ speech_icon @ '' TOP COMMENTS:'' @ nl]"

definition no_valid_comments :: string where
  "no_valid_comments = ''    No valid comments found for this post.''"

definition post_footer :: string where
  "post_footer = replicate 30 (CHR ''='') @ nl"

text \<open>
  Line 59, \<open>post.comments.replace_more(limit=0)\<close>, commented in the source as
  \<open>Remove "more comments" links\<close>. The method is PRAW's, not the repository's; it is
  modelled after that comment and the library's documented meaning of \<open>limit=0\<close>:
  every placeholder is removed and none is expanded, with no further request. What is
  left holds comments only, and is returned as the sequence that line 62 iterates.
\<close>

fun replace_more_limit0 :: "forest_item list \<Rightarrow> comment list" where
  "replace_more_limit0 [] = []"
| "replace_more_limit0 (Comment c # items) = c # replace_more_limit0 items"
| "replace_more_limit0 (MoreComments hidden # items) = replace_more_limit0 items"

text \<open>
  Lines 61-74 on the sequence of comments that line 62 iterates: the loop from
  \<open>comments_fetched = 0\<close>, then the placeholder line when nothing was printed.
\<close>

definition comments_block :: "fill_fun \<Rightarrow> int \<Rightarrow> comment list \<Rightarrow> string list" where
  "comments_block fill comment_limit cs =
     (case comment_loop fill comment_limit cs 0 of
        (out, comments_fetched) \<Rightarrow>
          out @ (if comments_fetched = 0 then [no_valid_comments] else []))"

text \<open>
  Lines 51-76: the body of the loop over the posts. It returns what it prints, and
  the exception when the comment fetch of line 59 raises.
\<close>

definition post_body :: "fill_fun \<Rightarrow> int \<Rightarrow> nat \<Rightarrow> post \<Rightarrow> string list \<times> exn option" where
  "post_body fill comment_limit i p =
     (case post.comments p of
        Inl e \<Rightarrow> (post_header i p, Some e)
      | Inr forest \<Rightarrow>
          (post_header i p
             @ comments_block fill comment_limit (replace_more_limit0 forest)
             @ [post_footer],
           None))"

text \<open>
  Line 50: the loop over the listing. An exception, from the listing or from the
  body, leaves the loop: no later post is visited.
\<close>

fun post_loop :: "fill_fun \<Rightarrow> int \<Rightarrow> nat \<Rightarrow> (exn + post) list \<Rightarrow> string list \<times> exn option" where
  "post_loop fill comment_limit i [] = ([], None)"
| "post_loop fill comment_limit i (Inl e # rest) = ([], Some e)"
| "post_loop fill comment_limit i (Inr p # rest) =
     (case post_body fill comment_limit i p of
        (out, Some e) \<Rightarrow> (out, Some e)
      | (out, None) \<Rightarrow>
          (case post_loop fill comment_limit (Suc i) rest of
             (out', r) \<Rightarrow> (out @ out', r)))"

text \<open>Lines 79-80: the two lines of the handler.\<close>

definition fetch_diagnostic :: "string \<Rightarrow> exn \<Rightarrow> string list" where
  "fetch_diagnostic subreddit_name e =
     [nl @ red_circle @ '' ERROR: Could not fetch posts from r/'' @ subreddit_name @ ''.'',
      ''Please ensure the subreddit exists and is public. Details: '' @ str_exn e]"

text \<open>Line 44: the announcement.\<close>

definition hunting_line :: "int \<Rightarrow> string \<Rightarrow> string \<Rightarrow> string" where
  "hunting_line lim subreddit_name time_filter =
     nl @ magnifier @ '' Hunting for top '' @ str_int lim @ '' posts in r/''
       @ subreddit_name @ '' from the past '' @ time_filter @ ''...''"

text \<open>Lines 43-80. The function returns nothing; the result is what it prints.\<close>

definition get_newletter_content ::
    "fill_fun \<Rightarrow> reddit \<Rightarrow> string \<Rightarrow> int \<Rightarrow> string \<Rightarrow> int \<Rightarrow> string list" where
  "get_newletter_content fill r subreddit_name lim time_filter comment_limit =
     [hunting_line lim subreddit_name time_filter, replicate 80 (CHR ''-'')]
     @ (case post_loop fill comment_limit 0 (subreddit_top r subreddit_name time_filter lim) of
          (out, None) \<Rightarrow> out
        | (out, Some e) \<Rightarrow> out @ fetch_diagnostic subreddit_name e)"

section \<open>get_reddit_instance and main\<close>

text \<open>Python's truth value of what \<open>os.getenv\<close> returns: \<open>None\<close> and \<open>""\<close> are false.\<close>

definition truthy :: "string option \<Rightarrow> bool" where
  "truthy v = (case v of None \<Rightarrow> False | Some s \<Rightarrow> s \<noteq> [])"

definition credentials_error :: "string list" where
  "credentials_error =
     [red_circle @ '' ERROR: Reddit API credentials not found.'',
      ''Please set REDDIT_CLIENT_ID, REDDIT_CLIENT_SECRET, and REDDIT_USER_AGENT environment variables.'',
      ''Check the README.md for instructions.'']"

definition auth_success :: string where
  "auth_success = check_mark @ '' Successfully authenticated with Reddit API.''"

definition auth_error :: "exn \<Rightarrow> string" where
  "auth_error e =
     red_circle @ '' ERROR: Could not authenticate with Reddit. Please check your credentials. Details: ''
       @ str_exn e"

text \<open>
  Lines 12-36. \<open>env\<close> is the environment after \<open>load_dotenv()\<close>; \<open>connect\<close> is the
  outcome of lines 25-31 (\<open>praw.Reddit(...)\<close> and \<open>reddit.user.me()\<close>) for the three
  credentials. The result is what is printed, and \<open>Inl status\<close> for \<open>exit(status)\<close> or
  \<open>Inr\<close> of the returned client.
\<close>

definition get_reddit_instance ::
    "(string \<rightharpoonup> string) \<Rightarrow> (string \<Rightarrow> string \<Rightarrow> string \<Rightarrow> exn + reddit)
       \<Rightarrow> string list \<times> (int + reddit)" where
  "get_reddit_instance env connect =
     (let client_id = env ''REDDIT_CLIENT_ID'';
          client_secret = env ''REDDIT_CLIENT_SECRET'';
          user_agent = env ''REDDIT_USER_AGENT''
      in if \<not> (truthy client_id \<and> truthy client_secret \<and> truthy user_agent)
         then (credentials_error, Inl 1)
         else (case connect (the client_id) (the client_secret) (the user_agent) of
                 Inr r \<Rightarrow> ([auth_success], Inr r)
               | Inl e \<Rightarrow> ([auth_error e], Inl 1)))"

definition all_done :: string where
  "all_done = nl @ check_mark @ '' All done! Copy the output above and use it with your AI tool.''"

text \<open>
  Lines 109-114. \<open>parsed\<close> is the outcome of \<open>parser.parse_args()\<close> on line 109, which is
  argparse's: either it ends the process by itself (\<open>Inl\<close>, with what it printed on
  standard output and its exit status: 0 after \<open>-h\<close>, 2 on an argument error, whose message
  goes to standard error), or it returns the namespace (\<open>Inr\<close>). The result is what is
  printed and the exit status of the process (0 when \<open>main\<close> returns).
\<close>

definition main ::
    "fill_fun \<Rightarrow> (string \<rightharpoonup> string) \<Rightarrow> (string \<Rightarrow> string \<Rightarrow> string \<Rightarrow> exn + reddit)
       \<Rightarrow> (string list \<times> int) + args \<Rightarrow> string list \<times> int" where
  "main fill env connect parsed =
     (case parsed of
        Inl (printed, status) \<Rightarrow> (printed, status)
      | Inr a \<Rightarrow>
          (case get_reddit_instance env connect of
             (out, Inl status) \<Rightarrow> (out, status)
           | (out, Inr r) \<Rightarrow>
               (out @ get_newletter_content fill r (subreddit a) (limit a) (time a)
                        (args.comments a)
                  @ [all_done],
                0)))"

section \<open>Concrete inputs\<close>

text \<open>
  The comments of the first scenario: a stickied comment of score 50, "hello" of score
  10, a deleted comment of score 9 and "world" of score 5.
\<close>

definition c_sticky :: comment where
  "c_sticky = \<lparr>body = ''Welcome'', score = 50, stickied = True\<rparr>"

definition c_hello :: comment where
  "c_hello = \<lparr>body = ''hello'', score = 10, stickied = False\<rparr>"

definition c_deleted :: comment where
  "c_deleted = \<lparr>body = ''[deleted]'', score = 9, stickied = False\<rparr>"

definition c_world :: comment where
  "c_world = \<lparr>body = ''world'', score = 5, stickied = False\<rparr>"

definition scenario_comments :: "comment list" where
  "scenario_comments = [c_sticky, c_hello, c_deleted, c_world]"

text \<open>
  A stand-in for \<open>textwrap.fill\<close> in the concrete examples: what it returns for a text
  of one short word, the initial indent followed by the text.
\<close>

definition one_line_fill :: fill_fun where
  "one_line_fill text width initial_indent subsequent_indent = initial_indent @ text"

text \<open>Two posts, the first with the comments above, the second with none.\<close>

definition post_A :: post where
  "post_A = \<lparr>title = ''A'', score = 100, url = ''https://example.org/a'',
              comments = Inr (map Comment scenario_comments)\<rparr>"

definition post_B :: post where
  "post_B = \<lparr>title = ''B'', score = 7, url = ''https://example.org/b'', comments = Inr []\<rparr>"

text \<open>A post whose comment fetch raises.\<close>

definition post_F :: post where
  "post_F = \<lparr>title = ''F'', score = 3, url = ''https://example.org/f'',
              comments = Inl (Exception ''timeout'')\<rparr>"

text \<open>Two clients: their listings give, for every query, the posts named.\<close>

definition reddit_FB :: reddit where
  "reddit_FB = \<lparr>subreddit_top = \<lambda>name time_filter lim. [Inr post_F, Inr post_B]\<rparr>"

definition reddit_AFB :: reddit where
  "reddit_AFB = \<lparr>subreddit_top = \<lambda>name time_filter lim. [Inr post_A, Inr post_F, Inr post_B]\<rparr>"

text \<open>A client that knows the community "test" only.\<close>

definition reddit_test_only :: reddit where
  "reddit_test_only =
     \<lparr>subreddit_top = \<lambda>name time_filter lim.
        if name = ''test'' then [Inr post_A, Inr post_B] else [Inl (Exception ''404'')]\<rparr>"

text \<open>An environment with the three credentials, and a platform that accepts them.\<close>

definition env_ok :: "string \<rightharpoonup> string" where
  "env_ok = map_of [(''REDDIT_CLIENT_ID'', ''id''), (''REDDIT_CLIENT_SECRET'', ''secret''),
                    (''REDDIT_USER_AGENT'', ''agent'')]"

definition connect_ok :: "string \<Rightarrow> string \<Rightarrow> string \<Rightarrow> exn + reddit" where
  "connect_ok client_id client_secret user_agent = Inr reddit_test_only"

definition args_nowhere :: args where
  "args_nowhere = \<lparr>subreddit = ''nowhere'', limit = 5, time = ''month'', comments = 3\<rparr>"

section \<open>The comment loop and the selection\<close>

text \<open>
  The comments that the loop selects, from any value of the counter, are the first
  \<open>comment_limit - comments_fetched\<close> eligible ones; what the loop prints is the
  rendering of the selected comments, and the counter grows by their number.
\<close>

lemma selected_comments_take_filter:
  "selected_comments comment_limit cs n = take (nat (comment_limit - n)) (filter eligible cs)"
proof (induction cs arbitrary: n)
  case Nil
  show ?case by simp
next
  case (Cons c cs)
  show ?case
  proof (cases "n \<ge> comment_limit")
    case True
    then show ?thesis by simp
  next
    case False
    then have pos: "nat (comment_limit - n) = Suc (nat (comment_limit - (n + 1)))"
      by simp
    show ?thesis
    proof (cases "eligible c")
      case True
      with False pos show ?thesis
        by (simp add: Cons.IH)
    next
      case False
      with \<open>\<not> n \<ge> comment_limit\<close> show ?thesis
        by (simp add: Cons.IH)
    qed
  qed
qed

lemma comment_loop_selected:
  "comment_loop fill comment_limit cs n =
     (concat (map (print_comment fill) (selected_comments comment_limit cs n)),
      n + int (length (selected_comments comment_limit cs n)))"
  by (induction cs arbitrary: n) auto

lemma comments_block_selected:
  "comments_block fill comment_limit cs =
     concat (map (print_comment fill) (selected_comments comment_limit cs 0))
       @ (if selected_comments comment_limit cs 0 = [] then [no_valid_comments] else [])"
  by (simp add: comments_block_def comment_loop_selected)

text \<open>
  The first scenario: with a limit of 2, "hello" and "world" are selected, in that order.
\<close>

lemma scenario_selected:
  "selected_comments 2 scenario_comments 0 = [c_hello, c_world]"
  by (simp add: scenario_comments_def eligible_def c_sticky_def c_hello_def c_deleted_def
      c_world_def)

subsection \<open>Length and eligibility of the selection\<close>

text \<open>
  C1 (as amended). For every comment sequence and every \<open>comment_limit\<close>, the selection
  has at most \<open>max 0 comment_limit\<close> elements (at most \<open>comment_limit\<close> when the limit is
  not negative, none when it is), and every selected comment is not stickied, its body is
  not "[deleted]" and its body is not "[removed]".
\<close>

theorem selection_bounded_eligible:
  "int (length (selected_comments comment_limit cs 0)) \<le> max 0 comment_limit \<and>
   (\<forall>c \<in> set (selected_comments comment_limit cs 0).
      \<not> stickied c \<and> body c \<noteq> ''[deleted]'' \<and> body c \<noteq> ''[removed]'')"
proof
  show "int (length (selected_comments comment_limit cs 0)) \<le> max 0 comment_limit"
    by (simp add: selected_comments_take_filter)
next
  have "set (selected_comments comment_limit cs 0) \<subseteq> {c. eligible c}"
    using set_take_subset [of "nat comment_limit" "filter eligible cs"]
    by (auto simp: selected_comments_take_filter)
  then show "\<forall>c \<in> set (selected_comments comment_limit cs 0).
      \<not> stickied c \<and> body c \<noteq> ''[deleted]'' \<and> body c \<noteq> ''[removed]''"
    by (auto simp: eligible_def)
qed

text \<open>
  The theorem on the first scenario, with a limit of 2.
\<close>

theorem selection_bounded_eligible_witness:
  "selected_comments 2 scenario_comments 0 = [c_hello, c_world] \<and>
   int (length (selected_comments 2 scenario_comments 0)) \<le> 2 \<and>
   \<not> stickied c_world \<and> body c_world \<noteq> ''[deleted]'' \<and> body c_world \<noteq> ''[removed]''"
  using selection_bounded_eligible [of 2 scenario_comments]
  by (simp add: scenario_selected)

text \<open>
  C1 as stated fails for a negative limit, which \<open>--comments\<close> accepts: with the limit
  \<open>-1\<close> the selection is empty, and its length 0 is not at most \<open>-1\<close>.
\<close>

theorem selection_length_counterexample:
  "\<not> int (length (selected_comments (- 1) scenario_comments 0)) \<le> - 1"
  by (simp add: scenario_comments_def)

subsection \<open>Order of the selection\<close>

text \<open>
  C2. The selection is filter-then-truncate: the first \<open>comment_limit\<close> eligible
  comments of the input, in the input's order (none when the limit is negative). It is a
  subsequence of the input: nothing is re-sorted.
\<close>

theorem selection_filter_then_truncate:
  "selected_comments comment_limit cs 0 = take (nat comment_limit) (filter eligible cs) \<and>
   subseq (selected_comments comment_limit cs 0) cs"
proof -
  have eq: "selected_comments comment_limit cs 0 = take (nat comment_limit) (filter eligible cs)"
    by (simp add: selected_comments_take_filter)
  have "subseq (take (nat comment_limit) (filter eligible cs)) (filter eligible cs)"
    by (metis append_take_drop_id list_emb_prefix subseq_order.order_refl)
  then have "subseq (take (nat comment_limit) (filter eligible cs)) cs"
    using subseq_filter_left subseq_order.order_trans by blast
  with eq show ?thesis by simp
qed

subsection \<open>Limit zero\<close>

text \<open>
  C5. With \<open>comment_limit = 0\<close> the selection is empty whatever the input holds, and
  the loop prints nothing.
\<close>

theorem zero_limit_selects_nothing:
  "selected_comments 0 cs 0 = [] \<and> comment_loop fill 0 cs 0 = ([], 0)"
  by (cases cs) simp_all

subsection \<open>No eligible comment\<close>

text \<open>
  C6. When no comment of the sequence is eligible, the selection is empty and lines
  61-74 print the placeholder line "No valid comments found for this post." and no
  comment entry.
\<close>

theorem no_eligible_comments_placeholder:
  assumes "\<forall>c \<in> set cs. \<not> eligible c"
  shows "selected_comments comment_limit cs 0 = [] \<and>
         comments_block fill comment_limit cs = [no_valid_comments]"
proof -
  from assms have "filter eligible cs = []"
    by (simp add: filter_empty_conv)
  then have "selected_comments comment_limit cs 0 = []"
    by (simp add: selected_comments_take_filter)
  then show ?thesis
    by (simp add: comments_block_selected)
qed

text \<open>
  The theorem on a stickied and a deleted comment.
\<close>

theorem no_eligible_comments_placeholder_witness:
  "\<not> eligible c_sticky \<and> \<not> eligible c_deleted \<and>
   selected_comments 3 [c_sticky, c_deleted] 0 = [] \<and>
   comments_block one_line_fill 3 [c_sticky, c_deleted] = [no_valid_comments]"
proof -
  have h: "\<forall>c \<in> set [c_sticky, c_deleted]. \<not> eligible c"
    by (simp add: eligible_def c_sticky_def c_deleted_def)
  from no_eligible_comments_placeholder [OF h, of 3 one_line_fill] h
  show ?thesis by simp
qed

subsection \<open>Rendering of a comment\<close>

text \<open>
  C8. What the loop prints is, for each selected comment in order: the line with its
  score, then its body passed through \<open>textwrap.fill\<close> with width 70 and an indent of
  four spaces for the first and for the subsequent lines, then a separator line of 20
  dashes.
\<close>

theorem comment_rendering:
  "comment_loop fill comment_limit cs 0 =
     (concat (map (\<lambda>c. [''  - (Score: '' @ str_int (comment.score c) @ '')'',
                          fill (body c) 70 (replicate 4 (CHR '' '')) (replicate 4 (CHR '' '')),
                          replicate 20 (CHR ''-'')])
                (selected_comments comment_limit cs 0)),
      int (length (selected_comments comment_limit cs 0)))"
proof -
  have "print_comment fill = (\<lambda>c. [''  - (Score: '' @ str_int (comment.score c) @ '')'',
                          fill (body c) 70 (replicate 4 (CHR '' '')) (replicate 4 (CHR '' '')),
                          replicate 20 (CHR ''-'')])"
    by (rule ext) (simp add: print_comment_def numeral_eq_Suc)
  then show ?thesis
    by (simp add: comment_loop_selected)
qed

subsection \<open>Negative limits\<close>

text \<open>
  C10. For a negative \<open>comment_limit\<close> the loop leaves before the condition of line 65
  is evaluated on any comment: nothing is examined, nothing is selected, nothing is
  printed by the loop, and the placeholder line is printed, also when the sequence holds
  eligible comments.
\<close>

theorem negative_limit_examines_nothing:
  assumes "comment_limit < 0"
  shows "examined_comments comment_limit cs 0 = [] \<and>
         selected_comments comment_limit cs 0 = [] \<and>
         comment_loop fill comment_limit cs 0 = ([], 0) \<and>
         comments_block fill comment_limit cs = [no_valid_comments]"
proof -
  from assms have e: "examined_comments comment_limit cs 0 = []"
    by (cases cs) simp_all
  from assms have s: "selected_comments comment_limit cs 0 = []"
    by (cases cs) simp_all
  from s have "comment_loop fill comment_limit cs 0 = ([], 0)"
    by (simp add: comment_loop_selected)
  with e s show ?thesis
    by (simp add: comments_block_def)
qed

text \<open>
  The theorem on the first scenario, which holds the eligible comment "hello", with
  the limit \<open>-1\<close>.
\<close>

theorem negative_limit_examines_nothing_witness:
  "(- 1 :: int) < 0 \<and> eligible c_hello \<and>
   examined_comments (- 1) scenario_comments 0 = [] \<and>
   selected_comments (- 1) scenario_comments 0 = [] \<and>
   comments_block one_line_fill (- 1) scenario_comments = [no_valid_comments]"
proof -
  have h: "(- 1 :: int) < 0" by simp
  have e: "eligible c_hello" by (simp add: eligible_def c_hello_def)
  from negative_limit_examines_nothing [OF h, of scenario_comments one_line_fill] e
  show ?thesis by simp
qed

section \<open>The "load more" placeholders\<close>

text \<open>
  Without its placeholders, the collection is the sequence that the loop traverses.
\<close>

lemma replace_more_limit0_filter:
  "map Comment (replace_more_limit0 forest) = filter is_Comment forest"
  by (induction forest rule: replace_more_limit0.induct) simp_all

text \<open>
  C3 (as amended). Before the traversal, line 59 removes the "load more" placeholders of
  the post's comment collection without expanding any of them (\<open>limit=0\<close>): the sequence
  traversed is exactly the comments already present in the fetched collection, in their
  order, and it is the sequence on which lines 61-74 run. The comments that a placeholder
  stands for are not considered.
\<close>

theorem placeholders_removed:
  "map Comment (replace_more_limit0 forest) = filter is_Comment forest \<and>
   (post.comments p = Inr forest \<longrightarrow>
      post_body fill comment_limit i p =
        (post_header i p @ comments_block fill comment_limit (replace_more_limit0 forest)
           @ [post_footer], None))"
  by (simp add: replace_more_limit0_filter post_body_def)

text \<open>
  The theorem on post A of the first scenario.
\<close>

theorem placeholders_removed_witness:
  "post.comments post_A = Inr (map Comment scenario_comments) \<and>
   replace_more_limit0 (map Comment scenario_comments) = scenario_comments \<and>
   post_body one_line_fill 2 0 post_A =
     (post_header 0 post_A @ comments_block one_line_fill 2 scenario_comments @ [post_footer],
      None)"
proof -
  have c: "post.comments post_A = Inr (map Comment scenario_comments)"
    by (simp add: post_A_def)
  have r: "replace_more_limit0 (map Comment scenario_comments) = scenario_comments"
    by (simp add: scenario_comments_def)
  from placeholders_removed [of "map Comment scenario_comments" post_A one_line_fill 2 0] c r
  show ?thesis by simp
qed

text \<open>
  C3 as stated fails: an eligible comment that stands behind a placeholder is not in
  the sequence traversed.
\<close>

theorem placeholders_not_expanded_counterexample:
  "eligible c_world \<and>
   c_world \<notin> set (replace_more_limit0 [Comment c_hello, MoreComments [c_world]])"
  by (simp add: eligible_def c_world_def c_hello_def)

section \<open>Fetch failures\<close>

text \<open>
  The loop over the listing prints, for each post whose comment fetch succeeds, its
  header, its comments and its footer, and goes on; it stops at the first step that
  raises, after the header when the step is a comment fetch.
\<close>

lemma post_loop_success:
  assumes "\<forall>p \<in> set ps. \<not> isl (post.comments p)"
  shows "post_loop fill comment_limit i (map Inr ps @ rest) =
           (concat (map (\<lambda>(j, p). post_header j p
                          @ comments_block fill comment_limit
                              (replace_more_limit0 (projr (post.comments p)))
                          @ [post_footer])
                      (enumerate i ps))
              @ fst (post_loop fill comment_limit (i + length ps) rest),
            snd (post_loop fill comment_limit (i + length ps) rest))"
  using assms
proof (induction ps arbitrary: i)
  case Nil
  show ?case by simp
next
  case (Cons p ps)
  from Cons.prems obtain forest where c: "post.comments p = Inr forest"
    by (cases "post.comments p") auto
  from Cons.prems have rest_ok: "\<forall>p \<in> set ps. \<not> isl (post.comments p)"
    by simp
  from c have b: "post_body fill comment_limit i p =
      (post_header i p @ comments_block fill comment_limit (replace_more_limit0 forest)
         @ [post_footer], None)"
    by (simp add: post_body_def)
  show ?case
    using Cons.IH [OF rest_ok, of "Suc i"] b c
    by (simp add: split_beta)
qed

lemma post_loop_failing:
  assumes "failing = Inl e \<or> (\<exists>p. failing = Inr p \<and> post.comments p = Inl e)"
  shows "post_loop fill comment_limit i (failing # remaining) =
           ((case failing of Inl _ \<Rightarrow> [] | Inr p \<Rightarrow> post_header i p), Some e)"
  using assms by (auto simp: post_body_def)

text \<open>
  C4 (as amended). A fetch failure during the listing of the posts or of a post's
  comments is not fatal: the single handler around the whole loop catches it and
  \<open>get_newletter_content\<close> returns. Its output is then the announcement and the line of
  dashes; for every post before the failure, in order, the header, the comment entries or
  the placeholder line, and the footer; the header alone of a post whose comment fetch
  failed; and the two lines of the diagnostic, which name the community and the
  underlying error. The posts after the failure are not processed: nothing of them is in
  the output.
\<close>

theorem fetch_failure_contained:
  assumes "\<forall>p \<in> set ps. \<not> isl (post.comments p)"
      and "failing = Inl (Exception msg) \<or>
           (\<exists>p. failing = Inr p \<and> post.comments p = Inl (Exception msg))"
      and "subreddit_top r subreddit_name time_filter lim = map Inr ps @ failing # remaining"
  shows "get_newletter_content fill r subreddit_name lim time_filter comment_limit =
           (let header = (\<lambda>i p.
                  [[CHR 0x0A] @ replicate 10 (CHR ''='') @ '' POST #'' @ str_int (int i + 1)
                     @ '' '' @ replicate 10 (CHR ''=''),
                   [CHR 0xF0, CHR 0x9F, CHR 0x93, CHR 0x84] @ '' TITLE: '' @ title p,
                   [CHR 0xF0, CHR 0x9F, CHR 0x91, CHR 0x8D] @ '' SCORE: ''
                     @ str_int (post.score p),
                   [CHR 0xF0, CHR 0x9F, CHR 0x94, CHR 0x97] @ '' URL: '' @ url p,
                   [CHR 0x0A] @ [CHR 0xF0, CHR 0x9F, CHR 0x92, CHR 0xAC] @ '' TOP COMMENTS:''
                     @ [CHR 0x0A]]);
                rendered = (\<lambda>(i, p).
                  let loop = comment_loop fill comment_limit
                               (replace_more_limit0 (projr (post.comments p))) 0
                  in header i p @ fst loop
                       @ (if snd loop = 0
                          then [''    No valid comments found for this post.''] else [])
                       @ [replicate 30 (CHR ''='') @ [CHR 0x0A]])
            in [[CHR 0x0A] @ [CHR 0xF0, CHR 0x9F, CHR 0x94, CHR 0x8D] @ '' Hunting for top ''
                  @ str_int lim @ '' posts in r/'' @ subreddit_name @ '' from the past ''
                  @ time_filter @ ''...'',
                replicate 80 (CHR ''-'')]
               @ concat (map rendered (enumerate 0 ps))
               @ (case failing of Inl _ \<Rightarrow> [] | Inr p \<Rightarrow> header (length ps) p)
               @ [[CHR 0x0A] @ [CHR 0xF0, CHR 0x9F, CHR 0x94, CHR 0xB4]
                    @ '' ERROR: Could not fetch posts from r/'' @ subreddit_name @ ''.'',
                  ''Please ensure the subreddit exists and is public. Details: '' @ msg])"
proof -
  have l: "post_loop fill comment_limit 0 (map Inr ps @ failing # remaining) =
      (concat (map (\<lambda>(j, p). post_header j p
                          @ comments_block fill comment_limit
                              (replace_more_limit0 (projr (post.comments p)))
                          @ [post_footer])
                      (enumerate 0 ps))
         @ (case failing of Inl _ \<Rightarrow> [] | Inr p \<Rightarrow> post_header (length ps) p),
       Some (Exception msg))"
    using post_loop_success [OF assms(1), of fill comment_limit 0 "failing # remaining"]
      post_loop_failing [OF assms(2), of fill comment_limit "length ps" remaining]
    by simp
  have h: "post_header = (\<lambda>i p.
                  [[CHR 0x0A] @ replicate 10 (CHR ''='') @ '' POST #'' @ str_int (int i + 1)
                     @ '' '' @ replicate 10 (CHR ''=''),
                   [CHR 0xF0, CHR 0x9F, CHR 0x93, CHR 0x84] @ '' TITLE: '' @ title p,
                   [CHR 0xF0, CHR 0x9F, CHR 0x91, CHR 0x8D] @ '' SCORE: ''
                     @ str_int (post.score p),
                   [CHR 0xF0, CHR 0x9F, CHR 0x94, CHR 0x97] @ '' URL: '' @ url p,
                   [CHR 0x0A] @ [CHR 0xF0, CHR 0x9F, CHR 0x92, CHR 0xAC] @ '' TOP COMMENTS:''
                     @ [CHR 0x0A]])"
    by (intro ext)
      (simp add: post_header_def nl_def page_icon_def thumbs_up_def link_icon_def
        speech_icon_def)
  have b: "comments_block fill comment_limit cs =
      fst (comment_loop fill comment_limit cs 0)
        @ (if snd (comment_loop fill comment_limit cs 0) = 0
           then [''    No valid comments found for this post.''] else [])" for cs
    by (simp add: comments_block_def split_beta no_valid_comments_def)
  show ?thesis
    unfolding get_newletter_content_def assms(3) l h b
    by (simp add: Let_def hunting_line_def fetch_diagnostic_def post_footer_def nl_def
        magnifier_def red_circle_def split: sum.split)
qed

text \<open>
  The theorem on the listing of post A, the failing post F and post B, with the whole
  output written out.
\<close>

theorem fetch_failure_contained_witness:
  "subreddit_top reddit_AFB ''test'' ''week'' 3 = map Inr [post_A] @ Inr post_F # [Inr post_B] \<and>
   \<not> isl (post.comments post_A) \<and>
   post.comments post_F = Inl (Exception ''timeout'') \<and>
   get_newletter_content one_line_fill reddit_AFB ''test'' 3 ''week'' 2 =
     [CHR 0x0A # [CHR 0xF0, CHR 0x9F, CHR 0x94, CHR 0x8D]
        @ '' Hunting for top 3 posts in r/test from the past week...'',
      ''--------------------------------------------------------------------------------'',
      CHR 0x0A # ''========== POST #1 =========='',
      [CHR 0xF0, CHR 0x9F, CHR 0x93, CHR 0x84] @ '' TITLE: A'',
      [CHR 0xF0, CHR 0x9F, CHR 0x91, CHR 0x8D] @ '' SCORE: 100'',
      [CHR 0xF0, CHR 0x9F, CHR 0x94, CHR 0x97] @ '' URL: https://example.org/a'',
      CHR 0x0A # [CHR 0xF0, CHR 0x9F, CHR 0x92, CHR 0xAC] @ '' TOP COMMENTS:'' @ [CHR 0x0A],
      ''  - (Score: 10)'',
      ''    hello'',
      ''--------------------'',
      ''  - (Score: 5)'',
      ''    world'',
      ''--------------------'',
      ''=============================='' @ [CHR 0x0A],
      CHR 0x0A # ''========== POST #2 =========='',
      [CHR 0xF0, CHR 0x9F, CHR 0x93, CHR 0x84] @ '' TITLE: F'',
      [CHR 0xF0, CHR 0x9F, CHR 0x91, CHR 0x8D] @ '' SCORE: 3'',
      [CHR 0xF0, CHR 0x9F, CHR 0x94, CHR 0x97] @ '' URL: https://example.org/f'',
      CHR 0x0A # [CHR 0xF0, CHR 0x9F, CHR 0x92, CHR 0xAC] @ '' TOP COMMENTS:'' @ [CHR 0x0A],
      CHR 0x0A # [CHR 0xF0, CHR 0x9F, CHR 0x94, CHR 0xB4]
        @ '' ERROR: Could not fetch posts from r/test.'',
      ''Please ensure the subreddit exists and is public. Details: timeout'']"
proof -
  have h1: "\<forall>p \<in> set [post_A]. \<not> isl (post.comments p)"
    by (simp add: post_A_def)
  have f: "post.comments post_F = Inl (Exception ''timeout'')"
    by (simp add: post_F_def)
  have h2: "Inr post_F = Inl (Exception ''timeout'') \<or>
            (\<exists>p. Inr post_F = Inr p \<and> post.comments p = Inl (Exception ''timeout''))"
    using f by simp
  have h3: "subreddit_top reddit_AFB ''test'' ''week'' 3
              = map Inr [post_A] @ Inr post_F # [Inr post_B]"
    by (simp add: reddit_AFB_def)
  have out: "get_newletter_content one_line_fill reddit_AFB ''test'' 3 ''week'' 2 =
     [CHR 0x0A # [CHR 0xF0, CHR 0x9F, CHR 0x94, CHR 0x8D]
        @ '' Hunting for top 3 posts in r/test from the past week...'',
      ''--------------------------------------------------------------------------------'',
      CHR 0x0A # ''========== POST #1 =========='',
      [CHR 0xF0, CHR 0x9F, CHR 0x93, CHR 0x84] @ '' TITLE: A'',
      [CHR 0xF0, CHR 0x9F, CHR 0x91, CHR 0x8D] @ '' SCORE: 100'',
      [CHR 0xF0, CHR 0x9F, CHR 0x94, CHR 0x97] @ '' URL: https://example.org/a'',
      CHR 0x0A # [CHR 0xF0, CHR 0x9F, CHR 0x92, CHR 0xAC] @ '' TOP COMMENTS:'' @ [CHR 0x0A],
      ''  - (Score: 10)'',
      ''    hello'',
      ''--------------------'',
      ''  - (Score: 5)'',
      ''    world'',
      ''--------------------'',
      ''=============================='' @ [CHR 0x0A],
      CHR 0x0A # ''========== POST #2 =========='',
      [CHR 0xF0, CHR 0x9F, CHR 0x93, CHR 0x84] @ '' TITLE: F'',
      [CHR 0xF0, CHR 0x9F, CHR 0x91, CHR 0x8D] @ '' SCORE: 3'',
      [CHR 0xF0, CHR 0x9F, CHR 0x94, CHR 0x97] @ '' URL: https://example.org/f'',
      CHR 0x0A # [CHR 0xF0, CHR 0x9F, CHR 0x92, CHR 0xAC] @ '' TOP COMMENTS:'' @ [CHR 0x0A],
      CHR 0x0A # [CHR 0xF0, CHR 0x9F, CHR 0x94, CHR 0xB4]
        @ '' ERROR: Could not fetch posts from r/test.'',
      ''Please ensure the subreddit exists and is public. Details: timeout'']"
    unfolding fetch_failure_contained [OF h1 h2 h3, of one_line_fill 2]
    by code_simp
  from h1 f h3 out show ?thesis
    by simp
qed

text \<open>
  C4 as stated fails: when the comment fetch of the first post raises, the second post
  of the listing, whose own comment fetch would succeed, is not processed, and its header
  is not printed.
\<close>

theorem fetch_failure_counterexample:
  "subreddit_top reddit_FB ''test'' ''week'' 2 ! 1 = Inr post_B \<and>
   post.comments post_B = Inr [] \<and>
   CHR 0x0A # ''========== POST #2 ==========''
     \<notin> set (get_newletter_content one_line_fill reddit_FB ''test'' 2 ''week'' 2)"
  by code_simp

section \<open>Exit status\<close>

text \<open>
  C7 (as amended). When the arguments parse, the exit status is 1 exactly when one of
  the three credentials is missing or empty, or the authentication raises; otherwise it is
  0 and the last line printed is the completion line, also when a post or comment fetch
  fails: then the output is the authentication acknowledgment, the announcement, the line
  of dashes, what the loop printed before the failure, the two lines of the diagnostic and
  the completion line. When argparse ends the process itself, on an argument error or on
  \<open>-h\<close>, the exit status is argparse's, and no credential is read.
\<close>

theorem exit_status:
  "snd (main fill env connect (Inr a)) =
     (if (\<exists>k \<in> {''REDDIT_CLIENT_ID'', ''REDDIT_CLIENT_SECRET'', ''REDDIT_USER_AGENT''}.
            env k = None \<or> env k = Some [])
         \<or> (\<exists>e. connect (the (env ''REDDIT_CLIENT_ID'')) (the (env ''REDDIT_CLIENT_SECRET''))
                   (the (env ''REDDIT_USER_AGENT'')) = Inl e)
      then 1 else 0) \<and>
   (snd (main fill env connect (Inr a)) = 0 \<longrightarrow>
      last (fst (main fill env connect (Inr a))) =
        [CHR 0x0A] @ [CHR 0xE2, CHR 0x9C, CHR 0x85]
          @ '' All done! Copy the output above and use it with your AI tool.'') \<and>
   (\<forall>r out msg.
      snd (main fill env connect (Inr a)) = 0 \<and>
      connect (the (env ''REDDIT_CLIENT_ID'')) (the (env ''REDDIT_CLIENT_SECRET''))
        (the (env ''REDDIT_USER_AGENT'')) = Inr r \<and>
      post_loop fill (args.comments a) 0 (subreddit_top r (subreddit a) (time a) (limit a))
        = (out, Some (Exception msg)) \<longrightarrow>
      fst (main fill env connect (Inr a)) =
        [[CHR 0xE2, CHR 0x9C, CHR 0x85] @ '' Successfully authenticated with Reddit API.'',
         [CHR 0x0A] @ [CHR 0xF0, CHR 0x9F, CHR 0x94, CHR 0x8D] @ '' Hunting for top ''
           @ str_int (limit a) @ '' posts in r/'' @ subreddit a @ '' from the past ''
           @ time a @ ''...'',
         replicate 80 (CHR ''-'')]
          @ out
          @ [[CHR 0x0A] @ [CHR 0xF0, CHR 0x9F, CHR 0x94, CHR 0xB4]
               @ '' ERROR: Could not fetch posts from r/'' @ subreddit a @ ''.'',
             ''Please ensure the subreddit exists and is public. Details: '' @ msg,
             [CHR 0x0A] @ [CHR 0xE2, CHR 0x9C, CHR 0x85]
               @ '' All done! Copy the output above and use it with your AI tool.'']) \<and>
   main fill env connect (Inl (printed, status)) = (printed, status)"
proof -
  let ?c = "connect (the (env ''REDDIT_CLIENT_ID'')) (the (env ''REDDIT_CLIENT_SECRET''))
                   (the (env ''REDDIT_USER_AGENT''))"
  have t: "truthy v \<longleftrightarrow> \<not> (v = None \<or> v = Some [])" for v :: "string option"
    by (cases v) (simp_all add: truthy_def)
  have p: "main fill env connect (Inl (printed, status)) = (printed, status)"
    by (simp add: main_def)
  show ?thesis
  proof (cases "truthy (env ''REDDIT_CLIENT_ID'') \<and> truthy (env ''REDDIT_CLIENT_SECRET'')
                  \<and> truthy (env ''REDDIT_USER_AGENT'')")
    case False
    then have "main fill env connect (Inr a) = (credentials_error, 1)"
      by (simp add: main_def get_reddit_instance_def Let_def)
    with False p show ?thesis
      by (auto simp: t)
  next
    case True
    show ?thesis
    proof (cases ?c)
      case (Inl e)
      with True have "main fill env connect (Inr a) = ([auth_error e], 1)"
        by (simp add: main_def get_reddit_instance_def Let_def)
      with Inl p show ?thesis by simp
    next
      case (Inr r)
      with True have m: "main fill env connect (Inr a) =
          ([auth_success] @ get_newletter_content fill r (subreddit a) (limit a) (time a)
              (args.comments a) @ [all_done], 0)"
        by (simp add: main_def get_reddit_instance_def Let_def)
      from True have "\<not> (\<exists>k \<in> {''REDDIT_CLIENT_ID'', ''REDDIT_CLIENT_SECRET'', ''REDDIT_USER_AGENT''}.
            env k = None \<or> env k = Some [])"
        by (simp add: t)
      with m Inr p show ?thesis
        by (simp add: get_newletter_content_def auth_success_def all_done_def hunting_line_def
            fetch_diagnostic_def nl_def check_mark_def magnifier_def red_circle_def)
    qed
  qed
qed

text \<open>
  The theorem on the scenario of valid credentials and a community that does not
  exist, with the whole output written out.
\<close>

theorem exit_status_witness:
  "connect_ok (the (env_ok ''REDDIT_CLIENT_ID'')) (the (env_ok ''REDDIT_CLIENT_SECRET''))
     (the (env_ok ''REDDIT_USER_AGENT'')) = Inr reddit_test_only \<and>
   post_loop one_line_fill 3 0 (subreddit_top reddit_test_only ''nowhere'' ''month'' 5)
     = ([], Some (Exception ''404'')) \<and>
   main one_line_fill env_ok connect_ok (Inr args_nowhere) =
     ([[CHR 0xE2, CHR 0x9C, CHR 0x85] @ '' Successfully authenticated with Reddit API.'',
       CHR 0x0A # [CHR 0xF0, CHR 0x9F, CHR 0x94, CHR 0x8D]
         @ '' Hunting for top 5 posts in r/nowhere from the past month...'',
       ''--------------------------------------------------------------------------------'',
       CHR 0x0A # [CHR 0xF0, CHR 0x9F, CHR 0x94, CHR 0xB4]
         @ '' ERROR: Could not fetch posts from r/nowhere.'',
       ''Please ensure the subreddit exists and is public. Details: 404'',
       CHR 0x0A # [CHR 0xE2, CHR 0x9C, CHR 0x85]
         @ '' All done! Copy the output above and use it with your AI tool.''],
      0)"
proof -
  have c: "connect_ok (the (env_ok ''REDDIT_CLIENT_ID'')) (the (env_ok ''REDDIT_CLIENT_SECRET''))
     (the (env_ok ''REDDIT_USER_AGENT'')) = Inr reddit_test_only"
    by (simp add: connect_ok_def)
  have l: "post_loop one_line_fill (args.comments args_nowhere) 0
             (subreddit_top reddit_test_only (subreddit args_nowhere) (time args_nowhere)
                (limit args_nowhere))
           = ([], Some (Exception ''404''))"
    by (simp add: reddit_test_only_def args_nowhere_def)
  have s: "snd (main one_line_fill env_ok connect_ok (Inr args_nowhere)) = 0"
    using exit_status [of one_line_fill env_ok connect_ok args_nowhere] c
    by (simp add: env_ok_def)
  from exit_status [of one_line_fill env_ok connect_ok args_nowhere] c l s
  have "fst (main one_line_fill env_ok connect_ok (Inr args_nowhere)) =
     [[CHR 0xE2, CHR 0x9C, CHR 0x85] @ '' Successfully authenticated with Reddit API.'',
      [CHR 0x0A] @ [CHR 0xF0, CHR 0x9F, CHR 0x94, CHR 0x8D] @ '' Hunting for top ''
        @ str_int 5 @ '' posts in r/'' @ ''nowhere'' @ '' from the past ''
        @ ''month'' @ ''...'',
      replicate 80 (CHR ''-'')]
       @ []
       @ [[CHR 0x0A] @ [CHR 0xF0, CHR 0x9F, CHR 0x94, CHR 0xB4]
            @ '' ERROR: Could not fetch posts from r/'' @ ''nowhere'' @ ''.'',
          ''Please ensure the subreddit exists and is public. Details: '' @ ''404'',
          [CHR 0x0A] @ [CHR 0xE2, CHR 0x9C, CHR 0x85]
            @ '' All done! Copy the output above and use it with your AI tool.'']"
    by (simp add: args_nowhere_def)
  also have "\<dots> =
      [[CHR 0xE2, CHR 0x9C, CHR 0x85] @ '' Successfully authenticated with Reddit API.'',
       CHR 0x0A # [CHR 0xF0, CHR 0x9F, CHR 0x94, CHR 0x8D]
         @ '' Hunting for top 5 posts in r/nowhere from the past month...'',
       ''--------------------------------------------------------------------------------'',
       CHR 0x0A # [CHR 0xF0, CHR 0x9F, CHR 0x94, CHR 0xB4]
         @ '' ERROR: Could not fetch posts from r/nowhere.'',
       ''Please ensure the subreddit exists and is public. Details: 404'',
       CHR 0x0A # [CHR 0xE2, CHR 0x9C, CHR 0x85]
         @ '' All done! Copy the output above and use it with your AI tool.'']"
    by code_simp
  finally have o: "fst (main one_line_fill env_ok connect_ok (Inr args_nowhere)) =
      [[CHR 0xE2, CHR 0x9C, CHR 0x85] @ '' Successfully authenticated with Reddit API.'',
       CHR 0x0A # [CHR 0xF0, CHR 0x9F, CHR 0x94, CHR 0x8D]
         @ '' Hunting for top 5 posts in r/nowhere from the past month...'',
       ''--------------------------------------------------------------------------------'',
       CHR 0x0A # [CHR 0xF0, CHR 0x9F, CHR 0x94, CHR 0xB4]
         @ '' ERROR: Could not fetch posts from r/nowhere.'',
       ''Please ensure the subreddit exists and is public. Details: 404'',
       CHR 0x0A # [CHR 0xE2, CHR 0x9C, CHR 0x85]
         @ '' All done! Copy the output above and use it with your AI tool.'']" .
  from o s have "main one_line_fill env_ok connect_ok (Inr args_nowhere) =
     ([[CHR 0xE2, CHR 0x9C, CHR 0x85] @ '' Successfully authenticated with Reddit API.'',
       CHR 0x0A # [CHR 0xF0, CHR 0x9F, CHR 0x94, CHR 0x8D]
         @ '' Hunting for top 5 posts in r/nowhere from the past month...'',
       ''--------------------------------------------------------------------------------'',
       CHR 0x0A # [CHR 0xF0, CHR 0x9F, CHR 0x94, CHR 0xB4]
         @ '' ERROR: Could not fetch posts from r/nowhere.'',
       ''Please ensure the subreddit exists and is public. Details: 404'',
       CHR 0x0A # [CHR 0xE2, CHR 0x9C, CHR 0x85]
         @ '' All done! Copy the output above and use it with your AI tool.''],
      0)"
    by (metis prod.collapse)
  with c l show ?thesis
    by (simp add: args_nowhere_def)
qed

text \<open>
  C7 as stated fails: with the three credentials present and accepted by the platform,
  an argument error ends the process with status 2, which is neither 1 nor 0.
\<close>

theorem exit_status_counterexample:
  "env_ok ''REDDIT_CLIENT_ID'' = Some ''id'' \<and>
   env_ok ''REDDIT_CLIENT_SECRET'' = Some ''secret'' \<and>
   env_ok ''REDDIT_USER_AGENT'' = Some ''agent'' \<and>
   connect_ok ''id'' ''secret'' ''agent'' = Inr reddit_test_only \<and>
   main one_line_fill env_ok connect_ok (Inl ([], 2)) = ([], 2)"
  by (simp add: env_ok_def connect_ok_def main_def)

end
